theory Spec2Isabelle
  imports Main "HOL-Library.AList"
begin

section \<open>DASHPIPE: the token chain of server.js\<close>

text \<open>
  A shallow embedding of \<^verbatim>\<open>src/server.js\<close>: the two in-memory stores, the token
  helpers, the manifest builder, the route handlers and the periodic cleanup.

  Conventions of the embedding.
  \<^item> A JavaScript string is the list of its UTF-8 bytes (\<^typ>\<open>string\<close>); the few
    non-ASCII characters of the source are named constants below.
  \<^item> \<^verbatim>\<open>Date.now()\<close> is an \<^typ>\<open>int\<close> (milliseconds); every function that reads the
    clock takes one argument per read, in the order of the reads.
  \<^item> \<^verbatim>\<open>Math.random()\<close> is an argument too: the outcome of the comparison or of the
    index computation the source makes with it.
  \<^item> The two \<^verbatim>\<open>Map\<close> objects are association lists in insertion order with
    \<^const>\<open>map_of\<close> for \<^verbatim>\<open>get\<close>, \<^const>\<open>AList.update\<close> for \<^verbatim>\<open>set\<close> (an existing key
    keeps its place, a new one goes last) and \<^const>\<open>AList.delete\<close> for \<^verbatim>\<open>delete\<close>.
  \<^item> What Node and JavaScript provide (the two digests, the process secrets,
    \<^verbatim>\<open>decodeURIComponent\<close>, the ISO rendering of a date) is a record of parameters,
    \<open>env\<close>; nothing is assumed about the digests.
  \<^item> \<^verbatim>\<open>logReq\<close> and \<^verbatim>\<open>console.log\<close> only write the request log and the console;
    they are left out, no handler reads the log back.
  \<^item> A field of a request body, a query parameter and a route parameter is a string
    or absent. \<^verbatim>\<open>slice\<close> counts UTF-16 units where \<^const>\<open>take\<close> counts bytes; the two
    agree on ASCII strings. The digests and the tokens made of them are ASCII, and there
    \<^const>\<open>take\<close> stands for \<^verbatim>\<open>slice\<close>; the manifest slices a token that came with the
    request, and there \<^verbatim>\<open>slice\<close> is modelled unit by unit.
  \<^item> The clock values are integers within the range of \<^verbatim>\<open>Date\<close>, where the arithmetic
    of the source is exact and \<^verbatim>\<open>toISOString\<close> does not throw.
\<close>

subsection \<open>Strings and numbers\<close>

definition em_dash :: string where
  "em_dash = [CHR 0xE2, CHR 0x80, CHR 0x94]"

definition digit_char :: "nat \<Rightarrow> char" where
  "digit_char d = ''0123456789'' ! d"

text \<open>The decimal rendering of an integer, as a template literal renders a number
  that is an integer below \<open>10\<^sup>2\<^sup>1\<close> in magnitude (every clock value is).\<close>

fun show_nat :: "nat \<Rightarrow> string" where
  "show_nat n = (if n < 10 then [digit_char n] else show_nat (n div 10) @ [digit_char (n mod 10)])"

declare show_nat.simps [simp del]

definition show_int :: "int \<Rightarrow> string" where
  "show_int i = (if i < 0 then ''-'' @ show_nat (nat (- i)) else show_nat (nat i))"

text \<open>\<^verbatim>\<open>Math.round(d / 1000)\<close> for an integer \<open>d\<close>: the nearest integer, a tie going up.\<close>

definition round_div_1000 :: "int \<Rightarrow> int" where
  "round_div_1000 d = (d + 500) div 1000"

subsection \<open>Configuration\<close>

definition SESSION_TTL :: int where
  "SESSION_TTL = 60 * 60 * 1000"

definition CDN_TTL :: int where
  "CDN_TTL = 60 * 1000"

definition CDN_POOL :: "string list" where
  "CDN_POOL = [''cs5'', ''cs6'', ''cs7'', ''cs8'']"

definition USERS :: "(string \<times> string) list" where
  "USERS = [(''demo'', ''demo123''), (''test'', ''test456''), (''admin'', ''admin789'')]"

definition UPSTREAM :: string where
  "UPSTREAM = ''storage.googleapis.com''"

definition UPSTREAM_BASE :: string where
  "UPSTREAM_BASE = ''/shaka-demo-assets/angel-one-clearkey''"

record env =
  SECRET :: string
  CDN_SECRET :: string
  md5_hex :: "string \<Rightarrow> string"
  sha256_base64url :: "string \<Rightarrow> string"
  decodeURIComponent :: "string \<Rightarrow> string option"
  toISOString :: "int \<Rightarrow> string"

subsection \<open>In-memory stores\<close>

record session =
  userId :: string
  ip :: string
  createdAt :: int
  expiresAt :: int

record cdn_data =
  sessionToken :: string
  cdnServer :: string
  channel :: string
  cdnCreatedAt :: int
  cdnExpiresAt :: int

record stores =
  sessionStore :: "(string \<times> session) list"
  cdnTokenStore :: "(string \<times> cdn_data) list"

subsection \<open>Token helpers\<close>

definition createSessionToken :: "env \<Rightarrow> int \<Rightarrow> string \<Rightarrow> string \<Rightarrow> stores \<Rightarrow> string \<times> stores" where
  "createSessionToken e ts uid addr st =
     (let raw = uid @ '':'' @ addr @ '':'' @ show_int ts @ '':'' @ SECRET e;
          tok = md5_hex e raw
      in (tok, st\<lparr>sessionStore := AList.update tok
            \<lparr>userId = uid, ip = addr, createdAt = ts, expiresAt = ts + SESSION_TTL\<rparr>
            (sessionStore st)\<rparr>))"

datatype session_check = SessionDenied string | SessionOk session

definition checkSessionToken :: "int \<Rightarrow> string \<Rightarrow> string \<Rightarrow> stores \<Rightarrow> session_check \<times> stores" where
  "checkSessionToken now token addr st =
     (case map_of (sessionStore st) token of
        None \<Rightarrow> (SessionDenied ''token not found'', st)
      | Some s \<Rightarrow>
          if now > expiresAt s
          then (SessionDenied ''token expired'',
                st\<lparr>sessionStore := AList.delete token (sessionStore st)\<rparr>)
          else (SessionOk s, st))"

text \<open>\<open>hi\<close> is the outcome of \<^verbatim>\<open>Math.random() > 0.5\<close>.\<close>

definition createCdnToken :: "env \<Rightarrow> int \<Rightarrow> bool \<Rightarrow> string \<Rightarrow> string \<Rightarrow> string \<Rightarrow> stores \<Rightarrow> string \<times> stores" where
  "createCdnToken e ts hi sessTok server chan st =
     (let raw = sessTok @ '':'' @ server @ '':'' @ chan @ '':'' @ show_int ts @ '':'' @ CDN_SECRET e;
          body = take 36 (sha256_base64url e raw);
          prefix = (if hi then ''1ab'' else ''1aa'');
          tok = prefix @ ''@'' @ body
      in (tok, st\<lparr>cdnTokenStore := AList.update tok
            \<lparr>sessionToken = sessTok, cdnServer = server, channel = chan,
             cdnCreatedAt = ts, cdnExpiresAt = ts + CDN_TTL\<rparr>
            (cdnTokenStore st)\<rparr>))"

datatype cdn_check = CdnDenied string | CdnOk cdn_data int

text \<open>The validator reads the clock twice: \<open>now\<close> for the comparison, \<open>now2\<close> for the
  seconds left.\<close>

definition checkCdnToken :: "int \<Rightarrow> int \<Rightarrow> string \<Rightarrow> stores \<Rightarrow> cdn_check \<times> stores" where
  "checkCdnToken now now2 token st =
     (case map_of (cdnTokenStore st) token of
        None \<Rightarrow> (CdnDenied (''CDN token not found '' @ em_dash @ '' may have expired''), st)
      | Some t \<Rightarrow>
          if now > cdnExpiresAt t
          then (CdnDenied ''CDN token expired (60s limit reached)'',
                st\<lparr>cdnTokenStore := AList.delete token (cdnTokenStore st)\<rparr>)
          else (CdnOk t (round_div_1000 (cdnExpiresAt t - now2)), st))"

subsection \<open>String helpers of JavaScript\<close>

definition box_dr :: string where "box_dr = [CHR 0xE2, CHR 0x95, CHR 0x94]"
definition box_h :: string where "box_h = [CHR 0xE2, CHR 0x95, CHR 0x90]"
definition box_dl :: string where "box_dl = [CHR 0xE2, CHR 0x95, CHR 0x97]"
definition box_v :: string where "box_v = [CHR 0xE2, CHR 0x95, CHR 0x91]"
definition box_ur :: string where "box_ur = [CHR 0xE2, CHR 0x95, CHR 0x9A]"
definition box_ul :: string where "box_ul = [CHR 0xE2, CHR 0x95, CHR 0x9D]"
definition light_h :: string where "light_h = [CHR 0xE2, CHR 0x94, CHR 0x80]"

text \<open>The lines of a template literal, joined by the line feeds between them.\<close>

fun joinLines :: "string list \<Rightarrow> string" where
  "joinLines [] = []"
| "joinLines [l] = l"
| "joinLines (l # ls) = l @ [CHR 0x0A] @ joinLines ls"

fun startsWith :: "string \<Rightarrow> string \<Rightarrow> bool" where
  "startsWith s [] = True"
| "startsWith [] (p # ps) = False"
| "startsWith (c # cs) (p # ps) = (c = p \<and> startsWith cs ps)"

fun includes_str :: "string \<Rightarrow> string \<Rightarrow> bool" where
  "includes_str [] pat = (pat = [])"
| "includes_str (c # cs) pat = (startsWith (c # cs) pat \<or> includes_str cs pat)"

definition endsWith :: "string \<Rightarrow> string \<Rightarrow> bool" where
  "endsWith s pat = startsWith (rev s) (rev pat)"

text \<open>\<^verbatim>\<open>trim\<close>: white space and line terminators go from both ends. Only the ASCII
  ones are listed; the one string the source trims begins and ends in ASCII.\<close>

definition is_space :: "char \<Rightarrow> bool" where
  "is_space c = (c \<in> set [CHR 0x20, CHR 0x09, CHR 0x0A, CHR 0x0B, CHR 0x0C, CHR 0x0D])"

definition trim :: "string \<Rightarrow> string" where
  "trim s = rev (dropWhile is_space (rev (dropWhile is_space s)))"

text \<open>\<^verbatim>\<open>s.slice(0, n)\<close> on the UTF-8 bytes of \<open>s\<close>: the first \<open>n\<close> UTF-16 units. A
  character of one, two or three bytes is one unit, a character of four bytes is two
  (a surrogate pair); when the cut falls inside a pair, the half that is left is sent
  as the replacement character.\<close>

fun slice_from_0 :: "nat \<Rightarrow> string \<Rightarrow> string" where
  "slice_from_0 0 s = []"
| "slice_from_0 (Suc n) [] = []"
| "slice_from_0 (Suc n) (c # cs) =
     (if (of_char c :: nat) < 0x80 then c # slice_from_0 n cs
      else if (of_char c :: nat) < 0xE0 then c # take 1 cs @ slice_from_0 n (drop 1 cs)
      else if (of_char c :: nat) < 0xF0 then c # take 2 cs @ slice_from_0 n (drop 2 cs)
      else (case n of
              0 \<Rightarrow> [CHR 0xEF, CHR 0xBF, CHR 0xBD]
            | Suc k \<Rightarrow> c # take 3 cs @ slice_from_0 k (drop 3 cs)))"

text \<open>\<^verbatim>\<open>encodeURIComponent\<close>: the unreserved characters stay, every other byte of the
  UTF-8 form becomes \<open>%XX\<close> in upper-case hexadecimal.\<close>

definition uri_unreserved :: "char \<Rightarrow> bool" where
  "uri_unreserved c =
     (c \<in> set (''ABCDEFGHIJKLMNOPQRSTUVWXYZabcdefghijklmnopqrstuvwxyz0123456789-_.!~*()'' @ [CHR 0x27]))"

definition hex_digit :: "nat \<Rightarrow> char" where
  "hex_digit d = ''0123456789ABCDEF'' ! d"

definition percent_byte :: "char \<Rightarrow> string" where
  "percent_byte c =
     (if uri_unreserved c then [c]
      else [CHR ''%'', hex_digit (of_char c div 16), hex_digit (of_char c mod 16)])"

definition encodeURIComponent :: "string \<Rightarrow> string" where
  "encodeURIComponent s = concat (map percent_byte s)"

text \<open>Reading an encoded string back: \<open>%XX\<close> becomes the byte \<open>XX\<close>, any other character
  stays. It is used to show that the encoding loses nothing.\<close>

definition hex_value :: "char \<Rightarrow> nat option" where
  "hex_value c = map_of (zip ''0123456789ABCDEF'' [0..<16]) c"

fun percent_decode :: "string \<Rightarrow> string option" where
  "percent_decode [] = Some []"
| "percent_decode [c] = (if c = CHR ''%'' then None else Some [c])"
| "percent_decode [c, d] = (if c = CHR ''%'' then None else map_option ((#) c) (percent_decode [d]))"
| "percent_decode (c # h # l # rest) =
     (if c = CHR ''%''
      then (case (hex_value h, hex_value l) of
              (Some a, Some b) \<Rightarrow> map_option ((#) (char_of (16 * a + b))) (percent_decode rest)
            | _ \<Rightarrow> None)
      else map_option ((#) c) (percent_decode (h # l # rest)))"

subsection \<open>MPD builder\<close>

definition buildMpd :: "string \<Rightarrow> string \<Rightarrow> string" where
  \<open>buildMpd host cdnToken =
     (let segBase = ''http://'' @ host @ ''/cdn/'' @ encodeURIComponent cdnToken @ ''/seg/'';
          licUrl = ''http://'' @ host @ ''/license''
      in joinLines [
        ''<?xml version="1.0" encoding="UTF-8"?>'',
        ''<!--'',
        ''  '' @ box_dr @ concat (replicate 46 box_h) @ box_dl,
        ''  '' @ box_v @ ''  DASHPIPE '' @ em_dash @ '' Generated Manifest               '' @ box_v,
        ''  '' @ box_v @ ''  CDN Token : '' @ slice_from_0 20 cdnToken @ ''...     '' @ box_v,
        ''  '' @ box_v @ ''  License   : '' @ licUrl @ ''                       '' @ box_v,
        ''  '' @ box_v @ ''  DRM Type  : ClearKey (AES-128-CTR / CENC)  '' @ box_v,
        ''  '' @ box_ur @ concat (replicate 46 box_h) @ box_ul,
        ''-->'',
        ''<MPD xmlns="urn:mpeg:dash:schema:mpd:2011"'',
        ''     xmlns:cenc="urn:mpeg:cenc:2013"'',
        ''     xmlns:mspr="urn:microsoft:playready"'',
        ''     profiles="urn:mpeg:dash:profile:isoff-on-demand:2011"'',
        ''     type="static"'',
        ''     mediaPresentationDuration="PT1M14.167S"'',
        ''     minBufferTime="PT1.5S">'',
        '''',
        ''  <Period id="0" start="PT0S">'',
        '''',
        ''    <!-- '' @ concat (replicate 2 light_h) @ '' VIDEO TRACKS '' @ concat (replicate 34 light_h) @ '' -->'',
        ''    <AdaptationSet id="1" contentType="video" mimeType="video/mp4"'',
        ''                   codecs="avc1.42c00d" frameRate="25" par="16:9">'',
        '''',
        ''      <!-- DRM: ClearKey '' @ em_dash @ '' license server is OUR local endpoint -->'',
        ''      <ContentProtection'',
        ''        schemeIdUri="urn:uuid:e2719d58-a985-b3c9-781a-b030af78d30e"'',
        ''        value="ClearKey1.0">'',
        ''        <cenc:default_KID>9ab40503-e44b-4802-9325-6257542f2299</cenc:default_KID>'',
        ''        <dashif:laurl xmlns:dashif="https://dashif.org/CPS"'',
        ''          licenseType="temporary">'' @ licUrl @ ''</dashif:laurl>'',
        ''      </ContentProtection>'',
        ''      <ContentProtection'',
        ''        schemeIdUri="urn:mpeg:dash:mp4protection:2011" value="cenc"'',
        ''        cenc:default_KID="9ab40503-e44b-4802-9325-6257542f2299"/>'',
        '''',
        ''      <!-- 144p '' @ em_dash @ '' 100 kbps -->'',
        ''      <Representation id="v1" bandwidth="100000" width="256" height="144" sar="1:1">'',
        ''        <BaseURL>'' @ segBase @ ''</BaseURL>'',
        ''        <SegmentTemplate'',
        ''          initialization="v-0144p-0100k-libx264-init.mp4"'',
        ''          media="v-0144p-0100k-libx264-$Number$.m4s"'',
        ''          timescale="90000" duration="250000" startNumber="1"/>'',
        ''      </Representation>'',
        '''',
        ''      <!-- 240p '' @ em_dash @ '' 250 kbps -->'',
        ''      <Representation id="v2" bandwidth="250000" width="424" height="240" sar="1:1">'',
        ''        <BaseURL>'' @ segBase @ ''</BaseURL>'',
        ''        <SegmentTemplate'',
        ''          initialization="v-0240p-0250k-libx264-init.mp4"'',
        ''          media="v-0240p-0250k-libx264-$Number$.m4s"'',
        ''          timescale="90000" duration="250000" startNumber="1"/>'',
        ''      </Representation>'',
        '''',
        ''      <!-- 360p '' @ em_dash @ '' 550 kbps -->'',
        ''      <Representation id="v3" bandwidth="550000" width="640" height="360" sar="1:1">'',
        ''        <BaseURL>'' @ segBase @ ''</BaseURL>'',
        ''        <SegmentTemplate'',
        ''          initialization="v-0360p-0550k-libx264-init.mp4"'',
        ''          media="v-0360p-0550k-libx264-$Number$.m4s"'',
        ''          timescale="90000" duration="250000" startNumber="1"/>'',
        ''      </Representation>'',
        '''',
        ''      <!-- 480p '' @ em_dash @ '' 1 Mbps -->'',
        ''      <Representation id="v4" bandwidth="1000000" width="854" height="480" sar="1:1">'',
        ''        <BaseURL>'' @ segBase @ ''</BaseURL>'',
        ''        <SegmentTemplate'',
        ''          initialization="v-0480p-1000k-libx264-init.mp4"'',
        ''          media="v-0480p-1000k-libx264-$Number$.m4s"'',
        ''          timescale="90000" duration="250000" startNumber="1"/>'',
        ''      </Representation>'',
        '''',
        ''      <!-- 720p '' @ em_dash @ '' 1.8 Mbps -->'',
        ''      <Representation id="v5" bandwidth="1800000" width="1280" height="720" sar="1:1">'',
        ''        <BaseURL>'' @ segBase @ ''</BaseURL>'',
        ''        <SegmentTemplate'',
        ''          initialization="v-0720p-1800k-libx264-init.mp4"'',
        ''          media="v-0720p-1800k-libx264-$Number$.m4s"'',
        ''          timescale="90000" duration="250000" startNumber="1"/>'',
        ''      </Representation>'',
        '''',
        ''    </AdaptationSet>'',
        '''',
        ''    <!-- '' @ concat (replicate 2 light_h) @ '' AUDIO TRACKS '' @ concat (replicate 34 light_h) @ '' -->'',
        ''    <AdaptationSet id="2" contentType="audio" mimeType="audio/mp4"'',
        ''                   codecs="mp4a.40.2" lang="en">'',
        '''',
        ''      <ContentProtection'',
        ''        schemeIdUri="urn:uuid:e2719d58-a985-b3c9-781a-b030af78d30e"'',
        ''        value="ClearKey1.0">'',
        ''        <cenc:default_KID>9ab40503-e44b-4802-9325-6257542f2299</cenc:default_KID>'',
        ''        <dashif:laurl xmlns:dashif="https://dashif.org/CPS"'',
        ''          licenseType="temporary">'' @ licUrl @ ''</dashif:laurl>'',
        ''      </ContentProtection>'',
        '''',
        ''      <!-- English Stereo 128kbps -->'',
        ''      <Representation id="a1" bandwidth="128000">'',
        ''        <BaseURL>'' @ segBase @ ''</BaseURL>'',
        ''        <SegmentTemplate'',
        ''          initialization="a-0128k-aac-init.mp4"'',
        ''          media="a-0128k-aac-$Number$.m4s"'',
        ''          timescale="44100" duration="177408" startNumber="1"/>'',
        ''      </Representation>'',
        '''',
        ''      <!-- English Stereo 64kbps -->'',
        ''      <Representation id="a2" bandwidth="64000">'',
        ''        <BaseURL>'' @ segBase @ ''</BaseURL>'',
        ''        <SegmentTemplate'',
        ''          initialization="a-0064k-aac-init.mp4"'',
        ''          media="a-0064k-aac-$Number$.m4s"'',
        ''          timescale="44100" duration="177408" startNumber="1"/>'',
        ''      </Representation>'',
        '''',
        ''    </AdaptationSet>'',
        '''',
        ''    <!-- '' @ concat (replicate 2 light_h) @ '' SUBTITLES '' @ concat (replicate 37 light_h) @ '' -->'',
        ''    <AdaptationSet id="3" contentType="text" mimeType="text/vtt" lang="en">'',
        ''      <Representation id="s1" bandwidth="1000">'',
        ''        <BaseURL>'' @ segBase @ ''subtitles/</BaseURL>'',
        ''        <SegmentTemplate media="angel_one_en-$Number$.vtt"'',
        ''          timescale="1" duration="10" startNumber="1"/>'',
        ''      </Representation>'',
        ''    </AdaptationSet>'',
        '''',
        ''  </Period>'',
        ''</MPD>''
      ])\<close>

subsection \<open>Routes\<close>

datatype jvalue = JStr string | JNum int | JBool bool

text \<open>A response body: the object given to \<^verbatim>\<open>res.json\<close>, the string given to
  \<^verbatim>\<open>res.send\<close>, or the body Express writes for \<^verbatim>\<open>res.redirect\<close> to a URL.\<close>

datatype payload = Json "(string \<times> jvalue) list" | Text string | Redirect string

record response =
  status :: nat
  headers :: "(string \<times> string) list"
  payload :: payload

record upstream_request =
  hostname :: string
  path :: string
  reqMethod :: string
  reqHeaders :: "(string \<times> string) list"

text \<open>What a CDN route does with a request: it answers at once, it opens a request to
  the upstream origin (remembering the CDN server for the answer's headers), or
  \<^verbatim>\<open>decodeURIComponent\<close> throws and the request ends in Express's error handler.\<close>

datatype outcome = Reply response | Upstream upstream_request string | Thrown

text \<open>A field of a JSON body or of the query string: absent, or a string. \<^verbatim>\<open>!v\<close> holds
  of an absent field and of the empty string.\<close>

definition falsy :: "string option \<Rightarrow> bool" where
  "falsy v = (v = None \<or> v = Some [])"

text \<open>\<^verbatim>\<open>GET /api/session/:token\<close>\<close>

definition get_api_session :: "env \<Rightarrow> int \<Rightarrow> string \<Rightarrow> stores \<Rightarrow> response \<times> stores" where
  "get_api_session e now token st =
     (case map_of (sessionStore st) token of
        None \<Rightarrow> (\<lparr>status = 200, headers = [], payload = Json [(''valid'', JBool False)]\<rparr>, st)
      | Some s \<Rightarrow>
          (let remaining = max 0 (round_div_1000 (expiresAt s - now))
           in (\<lparr>status = 200, headers = [],
                payload = Json [(''valid'', JBool True), (''userId'', JStr (userId s)),
                  (''remaining'', JNum remaining),
                  (''expiresAt'', JStr (toISOString e (expiresAt s))),
                  (''token'', JStr token)]\<rparr>, st)))"

text \<open>\<^verbatim>\<open>POST /login\<close>\<close>

definition post_login :: "env \<Rightarrow> int \<Rightarrow> string option \<Rightarrow> string option \<Rightarrow> string \<Rightarrow> stores \<Rightarrow> response \<times> stores" where
  "post_login e now username password addr st =
     (case (username, password) of
        (Some u, Some p) \<Rightarrow>
          if falsy username \<or> falsy password
          then (\<lparr>status = 400, headers = [],
                 payload = Json [(''success'', JBool False),
                   (''message'', JStr ''username and password required'')]\<rparr>, st)
          else if map_of USERS u \<noteq> Some p
          then (\<lparr>status = 401, headers = [],
                 payload = Json [(''success'', JBool False),
                   (''message'', JStr ''Invalid credentials'')]\<rparr>, st)
          else
            (let (token, st') = createSessionToken e now u addr st
             in (\<lparr>status = 200, headers = [],
                  payload = Json [(''success'', JBool True), (''token'', JStr token),
                    (''userId'', JStr u), (''expiresIn'', JNum (SESSION_TTL div 1000)),
                    (''message'', JStr (''Welcome '' @ u @ ''! Session valid for 1 hour.''))]\<rparr>,
                 st'))
      | _ \<Rightarrow>
          (\<lparr>status = 400, headers = [],
            payload = Json [(''success'', JBool False),
              (''message'', JStr ''username and password required'')]\<rparr>, st))"

text \<open>\<^verbatim>\<open>POST /logout\<close>\<close>

definition post_logout :: "string option \<Rightarrow> stores \<Rightarrow> response \<times> stores" where
  "post_logout token st =
     (\<lparr>status = 200, headers = [], payload = Json [(''success'', JBool True)]\<rparr>,
      (case token of
         Some tok \<Rightarrow>
           if falsy token then st
           else st\<lparr>sessionStore := AList.delete tok (sessionStore st)\<rparr>
       | None \<Rightarrow> st))"

text \<open>\<^verbatim>\<open>GET /proxy/:channel\<close>. The clock is read by \<^verbatim>\<open>checkSessionToken\<close> (\<open>t1\<close>), by
  \<^verbatim>\<open>createCdnToken\<close> (\<open>t2\<close>) and for the header (\<open>t3\<close>). \<open>pick\<close> is
  \<^verbatim>\<open>Math.floor(Math.random() * CDN_POOL.length)\<close>, below the pool's length since
  \<^verbatim>\<open>Math.random()\<close> is below 1; an index out of the pool would read \<^verbatim>\<open>undefined\<close>.\<close>

definition get_proxy :: "env \<Rightarrow> int \<Rightarrow> int \<Rightarrow> int \<Rightarrow> nat \<Rightarrow> bool \<Rightarrow> string \<Rightarrow> string option \<Rightarrow> string \<Rightarrow> string \<Rightarrow> stores \<Rightarrow> response \<times> stores" where
  "get_proxy e t1 t2 t3 pick hi chan token host addr st =
     (case token of
        None \<Rightarrow>
          (\<lparr>status = 401, headers = [],
            payload = Json [(''error'', JStr ''No session token provided''),
              (''hint'', JStr ''POST /login first'')]\<rparr>, st)
      | Some tok \<Rightarrow>
          if falsy token
          then (\<lparr>status = 401, headers = [],
                 payload = Json [(''error'', JStr ''No session token provided''),
                   (''hint'', JStr ''POST /login first'')]\<rparr>, st)
          else
            (case checkSessionToken t1 tok addr st of
               (SessionDenied reason, st1) \<Rightarrow>
                 (\<lparr>status = 403, headers = [],
                   payload = Json [(''error'', JStr (''Access denied: '' @ reason)),
                     (''hint'', JStr ''Your session has expired. POST /login again to get a new token.'')]\<rparr>,
                  st1)
             | (SessionOk s, st1) \<Rightarrow>
                 (let server = (if pick < length CDN_POOL then CDN_POOL ! pick else ''undefined'');
                      (cdnToken, st2) = createCdnToken e t2 hi tok server chan st1;
                      remaining = round_div_1000 (expiresAt s - t3);
                      redirectUrl = ''http://'' @ host @ ''/cdn/'' @ encodeURIComponent cdnToken
                                    @ ''/manifest.mpd''
                  in (\<lparr>status = 302,
                       headers = [(''X-Session-Remaining'', show_int remaining @ ''s''),
                         (''X-CDN-Server'', ''bpcdn'' @ server @ ''.example.lk''),
                         (''X-CDN-Token'', take 12 cdnToken @ ''...''),
                         (''Location'', redirectUrl)],
                       payload = Redirect redirectUrl\<rparr>, st2))))"

text \<open>\<^verbatim>\<open>GET /cdn/:cdnToken/manifest.mpd\<close>\<close>

definition get_cdn_manifest :: "env \<Rightarrow> int \<Rightarrow> int \<Rightarrow> string \<Rightarrow> string \<Rightarrow> stores \<Rightarrow> outcome \<times> stores" where
  "get_cdn_manifest e t1 t2 tokParam host st =
     (case decodeURIComponent e tokParam of
        None \<Rightarrow> (Thrown, st)
      | Some cdnToken \<Rightarrow>
          (case checkCdnToken t1 t2 cdnToken st of
             (CdnDenied reason, st1) \<Rightarrow>
               (Reply \<lparr>status = 403, headers = [],
                  payload = Text (trim (joinLines [
                    '''',
                    ''      CDN Error: '' @ reason,
                    ''      The CDN token is only valid for 60 seconds.'',
                    ''      Go back to the player and reload '' @ em_dash @ '' a fresh token will be generated.'',
                    ''    '']))\<rparr>, st1)
           | (CdnOk d secsLeft, st1) \<Rightarrow>
               (Reply \<lparr>status = 200,
                  headers = [(''Content-Type'', ''application/dash+xml''),
                    (''X-CDN-Server'', ''bpcdn'' @ cdnServer d @ ''.example.lk''),
                    (''X-CDN-Expires'', show_int secsLeft @ ''s''),
                    (''Access-Control-Allow-Origin'', ''*'')],
                  payload = Text (buildMpd host cdnToken)\<rparr>, st1)))"

text \<open>\<^verbatim>\<open>GET /cdn/:cdnToken/seg/*\<close>, up to the point where the upstream request is sent.\<close>

definition get_cdn_seg :: "env \<Rightarrow> int \<Rightarrow> int \<Rightarrow> string \<Rightarrow> string \<Rightarrow> stores \<Rightarrow> outcome \<times> stores" where
  "get_cdn_seg e t1 t2 tokParam segPath st =
     (case decodeURIComponent e tokParam of
        None \<Rightarrow> (Thrown, st)
      | Some cdnToken \<Rightarrow>
          (case checkCdnToken t1 t2 cdnToken st of
             (CdnDenied reason, st1) \<Rightarrow>
               (Reply \<lparr>status = 403, headers = [],
                  payload = Text (''CDN token expired '' @ em_dash @ '' reload player'')\<rparr>, st1)
           | (CdnOk d secsLeft, st1) \<Rightarrow>
               if includes_str segPath ''subtitles'' \<or> endsWith segPath ''.vtt''
               then (Reply \<lparr>status = 404, headers = [], payload = Text ''''\<rparr>, st1)
               else (Upstream \<lparr>hostname = UPSTREAM, path = UPSTREAM_BASE @ ''/'' @ segPath,
                       reqMethod = ''GET'', reqHeaders = [(''User-Agent'', ''DashPipe/1.0'')]\<rparr>
                       (cdnServer d), st1)))"

subsection \<open>Reading a manifest back\<close>

text \<open>The outline of a document, in order: at every position where
  \<^verbatim>\<open><Representation id="\<close> starts, the identifier up to the closing quote; at every
  position where \<^verbatim>\<open><BaseURL>\<close> starts, the text up to the next \<^verbatim>\<open><\<close>.\<close>

datatype item = Rep string | Url string

fun outline :: "string \<Rightarrow> item list" where
  \<open>outline [] = []\<close>
| \<open>outline (c # cs) =
     (if startsWith (c # cs) ''<Representation id="''
      then Rep (takeWhile (\<lambda>x. x \<noteq> CHR 0x22) (drop 20 (c # cs))) # outline cs
      else if startsWith (c # cs) ''<BaseURL>''
      then Url (takeWhile (\<lambda>x. x \<noteq> CHR ''<'') (drop 9 (c # cs))) # outline cs
      else outline cs)\<close>

text \<open>The same reading, one line at a time: \<open>None\<close> when an identifier or a URL does
  not end on the line it starts on. Used to read the manifest line by line.\<close>

fun lineOutline :: "string \<Rightarrow> item list option" where
  \<open>lineOutline [] = Some []\<close>
| \<open>lineOutline (c # cs) =
     (if startsWith (c # cs) ''<Representation id="''
      then (if CHR 0x22 \<in> set (drop 20 (c # cs))
            then map_option ((#) (Rep (takeWhile (\<lambda>x. x \<noteq> CHR 0x22) (drop 20 (c # cs))))) (lineOutline cs)
            else None)
      else if startsWith (c # cs) ''<BaseURL>''
      then (if CHR ''<'' \<in> set (drop 9 (c # cs))
            then map_option ((#) (Url (takeWhile (\<lambda>x. x \<noteq> CHR ''<'') (drop 9 (c # cs))))) (lineOutline cs)
            else None)
      else lineOutline cs)\<close>

fun linesOutline :: "string list \<Rightarrow> item list option" where
  "linesOutline [] = Some []"
| "linesOutline (l # ls) =
     (case lineOutline l of None \<Rightarrow> None | Some us \<Rightarrow> map_option ((@) us) (linesOutline ls))"

subsection \<open>Cleanup\<close>

text \<open>One \<^verbatim>\<open>for (const [k, v] of store)\<close> loop of the cleanup: the entries are visited
  in order, an expired one is deleted from the store and counted. Deleting the entry
  being visited does not disturb the iteration of a \<^verbatim>\<open>Map\<close>.\<close>

primrec sweepLoop :: "('v \<Rightarrow> int) \<Rightarrow> int \<Rightarrow> (string \<times> 'v) list \<Rightarrow> (string \<times> 'v) list \<times> nat \<Rightarrow> (string \<times> 'v) list \<times> nat" where
  "sweepLoop exp now [] acc = acc"
| "sweepLoop exp now (kv # es) acc =
     sweepLoop exp now es
       (if now > exp (snd kv) then (AList.delete (fst kv) (fst acc), Suc (snd acc)) else acc)"

definition cleanup :: "int \<Rightarrow> stores \<Rightarrow> stores \<times> nat" where
  "cleanup now st =
     (let (ss, cleaned1) = sweepLoop expiresAt now (sessionStore st) (sessionStore st, 0);
          (cs, cleaned2) = sweepLoop cdnExpiresAt now (cdnTokenStore st) (cdnTokenStore st, cleaned1)
      in (st\<lparr>sessionStore := ss, cdnTokenStore := cs\<rparr>, cleaned2))"

subsection \<open>Runs of the server\<close>

text \<open>What reaches the two stores: the requests, each with the clock values its handler
  reads and the outcome of its random draws, and the runs of the cleanup timer. A run
  applies them one after the other (one Node thread: no handler is interrupted).\<close>

datatype event =
    Login int "string option" "string option" string
  | Logout "string option"
  | Proxy int int int nat bool string "string option" string string
  | Manifest int int string string
  | Segment int int string string
  | SessionInfo int string
  | Sweep int

fun step :: "env \<Rightarrow> event \<Rightarrow> stores \<Rightarrow> stores" where
  "step e (Login now username password addr) st = snd (post_login e now username password addr st)"
| "step e (Logout token) st = snd (post_logout token st)"
| "step e (Proxy t1 t2 t3 pick hi chan token host addr) st =
     snd (get_proxy e t1 t2 t3 pick hi chan token host addr st)"
| "step e (Manifest t1 t2 tokParam host) st = snd (get_cdn_manifest e t1 t2 tokParam host st)"
| "step e (Segment t1 t2 tokParam segPath) st = snd (get_cdn_seg e t1 t2 tokParam segPath st)"
| "step e (SessionInfo now token) st = snd (get_api_session e now token st)"
| "step e (Sweep now) st = fst (cleanup now st)"


text \<open>The session token a response carries: the \<^verbatim>\<open>token\<close> field of a JSON body. Only
  the answer to a successful login has one.\<close>

fun token_field :: "payload \<Rightarrow> string option" where
  "token_field (Json kvs) = (case map_of kvs ''token'' of Some (JStr t) \<Rightarrow> Some t | _ \<Rightarrow> None)"
| "token_field body = None"



subsection \<open>An environment for the examples\<close>

text \<open>The default secrets of the source. The digests, the decoder and the date rendering
  are stand-ins: a digest is written as the name of the function around its input, the
  decoder returns its argument (as the real one does on a string without \<^verbatim>\<open>%\<close>), a date
  is rendered as its number. The examples below evaluate theorems that hold for every
  environment, and use no property of the stand-ins but that they are functions.\<close>

definition example_env :: env where
  "example_env =
     \<lparr>SECRET = ''proxy_secret_key_!@#$'', CDN_SECRET = ''cdn_secret_key_$%^&'',
      md5_hex = (\<lambda>raw. ''md5('' @ raw @ '')''),
      sha256_base64url = (\<lambda>raw. ''sha256('' @ raw @ '')''),
      decodeURIComponent = Some, toISOString = show_int\<rparr>"

text \<open>Stores holding one session (issued at 0, expiring at 3600000) and one CDN token
  (issued at 1000, expiring at 61000), for the examples.\<close>

definition example_stores :: stores where
  "example_stores =
     \<lparr>sessionStore = [(''s1'', \<lparr>userId = ''demo'', ip = ''10.0.0.1'', createdAt = 0, expiresAt = 3600000\<rparr>)],
      cdnTokenStore = [(''1ab@c1'', \<lparr>sessionToken = ''s1'', cdnServer = ''cs5'', channel = ''Ch120'',
         cdnCreatedAt = 1000, cdnExpiresAt = 61000\<rparr>)]\<rparr>"

text \<open>The number a string of decimal digits stands for.\<close>

definition digits_value :: "string \<Rightarrow> nat" where
  "digits_value s = foldl (\<lambda>acc c. 10 * acc + (of_char c - 48)) 0 s"

section \<open>Properties\<close>

subsection \<open>Evaluation rules\<close>

lemma show_nat_small: "n < 10 \<Longrightarrow> show_nat n = [digit_char n]"
  by (simp add: show_nat.simps)

lemma show_nat_large: "10 \<le> n \<Longrightarrow> show_nat n = show_nat (n div 10) @ [digit_char (n mod 10)]"
  by (subst show_nat.simps) simp

subsection \<open>The cleanup loop\<close>

lemma sweepLoop_eq:
  "sweepLoop exp now es (m, n) =
     (filter (\<lambda>kv. fst kv \<notin> fst ` {x \<in> set es. now > exp (snd x)}) m,
      n + length (filter (\<lambda>x. now > exp (snd x)) es))"
proof (induction es arbitrary: m n)
  case Nil
  then show ?case by simp
next
  case (Cons kv es)
  have del: "AList.delete k al = filter (\<lambda>p. fst p \<noteq> k) al" for k and al :: "(string \<times> 'a) list"
    by (induction al) (auto simp: AList.delete_eq)
  show ?case
  proof (cases "now > exp (snd kv)")
    case True
    have "{x \<in> set (kv # es). now > exp (snd x)} = insert kv {x \<in> set es. now > exp (snd x)}"
      using True by auto
    moreover have "filter (\<lambda>p. fst p \<notin> fst ` A) (filter (\<lambda>p. fst p \<noteq> fst kv) m)
        = filter (\<lambda>p. fst p \<notin> fst ` insert kv A) m" for A
      by (induction m) auto
    ultimately show ?thesis
      using True by (simp add: Cons.IH del)
  next
    case False
    have "{x \<in> set (kv # es). now > exp (snd x)} = {x \<in> set es. now > exp (snd x)}"
      using False by auto
    then show ?thesis
      using False by (simp add: Cons.IH)
  qed
qed

lemma sweepLoop_again:
  assumes "m' = fst (sweepLoop exp now m (m, n))"
  shows "sweepLoop exp now m' (m', k) = (m', k)"
proof -
  have m': "m' = filter (\<lambda>kv. fst kv \<notin> fst ` {x \<in> set m. now > exp (snd x)}) m"
    using assms by (simp add: sweepLoop_eq)
  have none: "\<not> now > exp (snd x)" if "x \<in> set m'" for x
    using that unfolding m' by force
  then have empty: "{x \<in> set m'. now > exp (snd x)} = {}"
    by auto
  have "filter (\<lambda>x. now > exp (snd x)) m' = []"
    using none by (simp add: filter_empty_conv)
  then show ?thesis
    unfolding sweepLoop_eq empty by simp
qed

text \<open>C6. Running the cleanup a second time at the same clock value, with nothing
  issued in between, removes nothing: the count of the second run is zero and both
  stores are left as the first run made them.\<close>

theorem cleanup_twice_removes_nothing:
  "cleanup now (fst (cleanup now st)) = (fst (cleanup now st), 0)"
proof -
  obtain ss c1 where s: "sweepLoop expiresAt now (sessionStore st) (sessionStore st, 0) = (ss, c1)"
    by (cases "sweepLoop expiresAt now (sessionStore st) (sessionStore st, 0)")
  obtain cs c2 where c: "sweepLoop cdnExpiresAt now (cdnTokenStore st) (cdnTokenStore st, c1) = (cs, c2)"
    by (cases "sweepLoop cdnExpiresAt now (cdnTokenStore st) (cdnTokenStore st, c1)")
  define st1 where "st1 = st\<lparr>sessionStore := ss, cdnTokenStore := cs\<rparr>"
  have first: "cleanup now st = (st1, c2)"
    by (simp add: cleanup_def s c st1_def)
  have "sweepLoop expiresAt now ss (ss, 0) = (ss, 0)"
    by (rule sweepLoop_again [where m = "sessionStore st" and n = 0]) (simp add: s)
  moreover have "sweepLoop cdnExpiresAt now cs (cs, 0) = (cs, 0)"
    by (rule sweepLoop_again [where m = "cdnTokenStore st" and n = c1]) (simp add: c)
  moreover have "sessionStore st1 = ss" "cdnTokenStore st1 = cs"
    by (simp_all add: st1_def)
  ultimately have "cleanup now st1 = (st1, 0)"
    by (simp add: cleanup_def)
  then show ?thesis
    by (simp add: first)
qed

subsection \<open>The validators at the expiry instant\<close>

text \<open>C9. At the expiry instant itself (the clock equal to the stored \<^verbatim>\<open>expiresAt\<close>)
  both validators answer valid and leave the stores alone; each of them answers valid
  exactly while the clock is not strictly greater than \<^verbatim>\<open>expiresAt\<close>.\<close>

theorem valid_at_expiry_instant:
  assumes "map_of (sessionStore st) tok = Some s" and "map_of (cdnTokenStore st) ctok = Some d"
  shows "checkSessionToken (expiresAt s) tok addr st = (SessionOk s, st)
       \<and> checkCdnToken (cdnExpiresAt d) now2 ctok st
           = (CdnOk d (round_div_1000 (cdnExpiresAt d - now2)), st)
       \<and> (\<forall>now. fst (checkSessionToken now tok addr st) = SessionOk s \<longleftrightarrow> now \<le> expiresAt s)
       \<and> (\<forall>now. (\<exists>secs. fst (checkCdnToken now now2 ctok st) = CdnOk d secs) \<longleftrightarrow> now \<le> cdnExpiresAt d)"
  using assms by (auto simp: checkSessionToken_def checkCdnToken_def)

theorem valid_at_expiry_instant_witness:
  "map_of (sessionStore example_stores) ''s1''
     = Some \<lparr>userId = ''demo'', ip = ''10.0.0.1'', createdAt = 0, expiresAt = 3600000\<rparr>
   \<and> fst (checkSessionToken 3600000 ''s1'' ''10.0.0.1'' example_stores)
     = SessionOk \<lparr>userId = ''demo'', ip = ''10.0.0.1'', createdAt = 0, expiresAt = 3600000\<rparr>
   \<and> fst (checkCdnToken 61000 61000 ''1ab@c1'' example_stores)
     = CdnOk \<lparr>sessionToken = ''s1'', cdnServer = ''cs5'', channel = ''Ch120'',
         cdnCreatedAt = 1000, cdnExpiresAt = 61000\<rparr> 0
   \<and> fst (checkSessionToken 3600001 ''s1'' ''10.0.0.1'' example_stores) = SessionDenied ''token expired''"
  using valid_at_expiry_instant [of example_stores "''s1''"
      "\<lparr>userId = ''demo'', ip = ''10.0.0.1'', createdAt = 0, expiresAt = 3600000\<rparr>"
      "''1ab@c1''"
      "\<lparr>sessionToken = ''s1'', cdnServer = ''cs5'', channel = ''Ch120'', cdnCreatedAt = 1000, cdnExpiresAt = 61000\<rparr>"
      "''10.0.0.1''" 61000]
  by (simp add: example_stores_def round_div_1000_def checkSessionToken_def)

subsection \<open>Session introspection\<close>

lemma remaining_clamped: "d < 0 \<Longrightarrow> max 0 (round_div_1000 d) = 0"
  unfolding round_div_1000_def by (simp add: max_def)

text \<open>C10. \<^verbatim>\<open>GET /api/session/:token\<close> answers \<^verbatim>\<open>valid: true\<close> for a session that is
  past its expiry but still in the store: it looks only at presence, reports zero
  seconds remaining, and leaves both stores as they were.\<close>

theorem introspection_ignores_expiry:
  assumes "map_of (sessionStore st) tok = Some s" and "expiresAt s < now"
  shows "get_api_session e now tok st =
     (\<lparr>status = 200, headers = [],
       payload = Json [(''valid'', JBool True), (''userId'', JStr (userId s)),
         (''remaining'', JNum 0), (''expiresAt'', JStr (toISOString e (expiresAt s))),
         (''token'', JStr tok)]\<rparr>, st)"
  using assms by (simp add: get_api_session_def remaining_clamped)

theorem introspection_ignores_expiry_witness:
  "expiresAt \<lparr>userId = ''demo'', ip = ''10.0.0.1'', createdAt = 0, expiresAt = 3600000\<rparr> < 3600001
   \<and> get_api_session example_env 3600001 ''s1'' example_stores =
     (\<lparr>status = 200, headers = [],
       payload = Json [(''valid'', JBool True), (''userId'', JStr ''demo''),
         (''remaining'', JNum 0), (''expiresAt'', JStr ''3600000''),
         (''token'', JStr ''s1'')]\<rparr>, example_stores)
   \<and> fst (checkSessionToken 3600001 ''s1'' ''10.0.0.1'' example_stores) = SessionDenied ''token expired''"
  using introspection_ignores_expiry [of example_stores "''s1''"
      "\<lparr>userId = ''demo'', ip = ''10.0.0.1'', createdAt = 0, expiresAt = 3600000\<rparr>" 3600001 example_env]
  by (simp add: example_stores_def example_env_def checkSessionToken_def show_int_def
      show_nat_small show_nat_large digit_char_def)

subsection \<open>The segment route\<close>

text \<open>C5. When the CDN token of a segment request validates and the path contains
  \<^verbatim>\<open>subtitles\<close> or ends in \<^verbatim>\<open>.vtt\<close>, the answer is 404 with an empty body, and no request to
  the upstream origin is opened.\<close>

theorem subtitle_segment_not_found:
  assumes "decodeURIComponent e tokParam = Some tok"
    and "fst (checkCdnToken t1 t2 tok st) = CdnOk d secs"
    and "includes_str segPath ''subtitles'' \<or> endsWith segPath ''.vtt''"
  shows "fst (get_cdn_seg e t1 t2 tokParam segPath st)
           = Reply \<lparr>status = 404, headers = [], payload = Text ''''\<rparr>
       \<and> (\<forall>rq srv. fst (get_cdn_seg e t1 t2 tokParam segPath st) \<noteq> Upstream rq srv)"
  using assms by (auto simp: get_cdn_seg_def split: prod.splits cdn_check.splits)

theorem subtitle_segment_not_found_witness:
  "decodeURIComponent example_env ''1ab@c1'' = Some ''1ab@c1''
   \<and> fst (checkCdnToken 2000 2001 ''1ab@c1'' example_stores)
       = CdnOk \<lparr>sessionToken = ''s1'', cdnServer = ''cs5'', channel = ''Ch120'',
           cdnCreatedAt = 1000, cdnExpiresAt = 61000\<rparr> 59
   \<and> includes_str ''subtitles/angel_one_en-1.vtt'' ''subtitles''
   \<and> fst (get_cdn_seg example_env 2000 2001 ''1ab@c1'' ''subtitles/angel_one_en-1.vtt'' example_stores)
       = Reply \<lparr>status = 404, headers = [], payload = Text ''''\<rparr>"
proof -
  have dec: "decodeURIComponent example_env ''1ab@c1'' = Some ''1ab@c1''"
    by (simp add: example_env_def)
  have ok: "fst (checkCdnToken 2000 2001 ''1ab@c1'' example_stores)
       = CdnOk \<lparr>sessionToken = ''s1'', cdnServer = ''cs5'', channel = ''Ch120'',
           cdnCreatedAt = 1000, cdnExpiresAt = 61000\<rparr> 59"
    by (simp add: checkCdnToken_def example_stores_def round_div_1000_def)
  have sub: "includes_str ''subtitles/angel_one_en-1.vtt'' ''subtitles''"
    by simp
  show ?thesis
    using subtitle_segment_not_found [OF dec ok disjI1 [OF sub]] dec ok sub by simp
qed

text \<open>C3. The segment route answers a CDN token that is not in the store and one that
  has expired with the same body, although \<^const>\<open>checkCdnToken\<close> gives two different
  reasons; the manifest route and the proxy route put the reason into their body.\<close>

theorem segment_denial_hides_reason:
  "fst (checkCdnToken 2000 2001 ''1ab@nosuchtoken'' example_stores)
     = CdnDenied (''CDN token not found '' @ em_dash @ '' may have expired'')
   \<and> fst (checkCdnToken 61001 61002 ''1ab@c1'' example_stores)
     = CdnDenied ''CDN token expired (60s limit reached)''
   \<and> fst (get_cdn_seg example_env 2000 2001 ''1ab@nosuchtoken'' ''v-0144p-0100k-libx264-init.mp4'' example_stores)
     = Reply \<lparr>status = 403, headers = [],
         payload = Text (''CDN token expired '' @ em_dash @ '' reload player'')\<rparr>
   \<and> fst (get_cdn_seg example_env 61001 61002 ''1ab@c1'' ''v-0144p-0100k-libx264-init.mp4'' example_stores)
     = Reply \<lparr>status = 403, headers = [],
         payload = Text (''CDN token expired '' @ em_dash @ '' reload player'')\<rparr>"
  by (simp add: get_cdn_seg_def checkCdnToken_def example_stores_def example_env_def)

text \<open>On the same two failures the manifest route, and on the two session failures the
  proxy route, answer with bodies that name the reason.\<close>

lemma sibling_routes_show_reason:
  "fst (get_cdn_manifest example_env 2000 2001 ''1ab@nosuchtoken'' ''localhost:3000'' example_stores)
     = Reply \<lparr>status = 403, headers = [],
         payload = Text (joinLines [
           ''CDN Error: CDN token not found '' @ em_dash @ '' may have expired'',
           ''      The CDN token is only valid for 60 seconds.'',
           ''      Go back to the player and reload '' @ em_dash @ '' a fresh token will be generated.''])\<rparr>
   \<and> fst (get_cdn_manifest example_env 61001 61002 ''1ab@c1'' ''localhost:3000'' example_stores)
     = Reply \<lparr>status = 403, headers = [],
         payload = Text (joinLines [
           ''CDN Error: CDN token expired (60s limit reached)'',
           ''      The CDN token is only valid for 60 seconds.'',
           ''      Go back to the player and reload '' @ em_dash @ '' a fresh token will be generated.''])\<rparr>
   \<and> fst (get_proxy example_env 2000 2001 2002 0 False ''Ch120'' (Some ''nosuchsession'') ''localhost:3000''
          ''10.0.0.1'' example_stores)
     = \<lparr>status = 403, headers = [],
         payload = Json [(''error'', JStr ''Access denied: token not found''),
           (''hint'', JStr ''Your session has expired. POST /login again to get a new token.'')]\<rparr>
   \<and> fst (get_proxy example_env 3600001 3600002 3600003 0 False ''Ch120'' (Some ''s1'') ''localhost:3000''
          ''10.0.0.1'' example_stores)
     = \<lparr>status = 403, headers = [],
         payload = Json [(''error'', JStr ''Access denied: token expired''),
           (''hint'', JStr ''Your session has expired. POST /login again to get a new token.'')]\<rparr>"
  by (simp add: get_cdn_manifest_def get_proxy_def checkCdnToken_def checkSessionToken_def falsy_def
      example_stores_def example_env_def trim_def is_space_def em_dash_def)

subsection \<open>Issuing CDN tokens\<close>

lemma createCdnToken_stored:
  "createCdnToken e ts hi sessTok server chan st = (tok, st') \<Longrightarrow>
   map_of (cdnTokenStore st') tok
     = Some \<lparr>sessionToken = sessTok, cdnServer = server, channel = chan,
         cdnCreatedAt = ts, cdnExpiresAt = ts + CDN_TTL\<rparr>
   \<and> sessionStore st' = sessionStore st"
  by (auto simp: createCdnToken_def Let_def update_conv')

text \<open>C2, amended. A CDN token issued by the proxy route for a session that is valid at
  the check is stored with expiry equal to its own issue time plus \<^const>\<open>CDN_TTL\<close>,
  whatever time the session has left; that expiry is at or before the session's exactly
  when the session has at least \<^const>\<open>CDN_TTL\<close> left at the issue time.\<close>

theorem delivery_expiry_is_issue_time_plus_ttl:
  assumes "map_of (sessionStore st) tok = Some s" and "t1 \<le> expiresAt s" and "tok \<noteq> []"
    and "snd (get_proxy e t1 t2 t3 pick hi chan (Some tok) host addr st) = st'"
    and "fst (createCdnToken e t2 hi tok (if pick < length CDN_POOL then CDN_POOL ! pick else ''undefined'') chan st) = cdnTok"
  shows "\<exists>d. map_of (cdnTokenStore st') cdnTok = Some d
           \<and> sessionToken d = tok
           \<and> cdnExpiresAt d = t2 + CDN_TTL
           \<and> (cdnExpiresAt d \<le> expiresAt s \<longleftrightarrow> CDN_TTL \<le> expiresAt s - t2)"
proof -
  let ?server = "if pick < length CDN_POOL then CDN_POOL ! pick else ''undefined''"
  have chk: "checkSessionToken t1 tok addr st = (SessionOk s, st)"
    using assms(1,2) by (simp add: checkSessionToken_def)
  obtain ct st2 where c: "createCdnToken e t2 hi tok ?server chan st = (ct, st2)"
    by (cases "createCdnToken e t2 hi tok ?server chan st")
  have "st' = st2"
    using assms(3,4) chk c by (simp add: get_proxy_def falsy_def Let_def)
  moreover have "cdnTok = ct"
    using assms(5) c by simp
  ultimately show ?thesis
    using createCdnToken_stored [OF c] by auto
qed

theorem delivery_expiry_is_issue_time_plus_ttl_witness:
  "map_of (sessionStore example_stores) ''s1''
      = Some \<lparr>userId = ''demo'', ip = ''10.0.0.1'', createdAt = 0, expiresAt = 3600000\<rparr>
   \<and> (\<exists>d. map_of (cdnTokenStore (snd (get_proxy example_env 5000 5001 5002 1 True ''Ch120'' (Some ''s1'')
                ''localhost:3000'' ''10.0.0.1'' example_stores)))
              (fst (createCdnToken example_env 5001 True ''s1'' ''cs6'' ''Ch120'' example_stores)) = Some d
         \<and> sessionToken d = ''s1'' \<and> cdnExpiresAt d = 65001 \<and> cdnExpiresAt d \<le> 3600000)"
  using delivery_expiry_is_issue_time_plus_ttl [of example_stores "''s1''"
      "\<lparr>userId = ''demo'', ip = ''10.0.0.1'', createdAt = 0, expiresAt = 3600000\<rparr>" 5000
      example_env 5001 5002 1 True "''Ch120''" "''localhost:3000''" "''10.0.0.1''"
      "snd (get_proxy example_env 5000 5001 5002 1 True ''Ch120'' (Some ''s1'') ''localhost:3000'' ''10.0.0.1'' example_stores)"
      "fst (createCdnToken example_env 5001 True ''s1'' ''cs6'' ''Ch120'' example_stores)"]
  by (simp add: example_stores_def CDN_POOL_def CDN_TTL_def)

text \<open>C2 as stated fails: a CDN token issued at 3599000 for a session that expires at
  3600000 expires at 3659000, after the session, with \<^const>\<open>SESSION_TTL\<close> greater than
  \<^const>\<open>CDN_TTL\<close>.\<close>

theorem delivery_outlives_session_counterexample:
  "CDN_TTL < SESSION_TTL
   \<and> fst (checkSessionToken 3599000 ''s1'' ''10.0.0.1'' example_stores)
       = SessionOk \<lparr>userId = ''demo'', ip = ''10.0.0.1'', createdAt = 0, expiresAt = 3600000\<rparr>
   \<and> map (\<lambda>kv. (sessionToken (snd kv), cdnCreatedAt (snd kv), cdnExpiresAt (snd kv)))
         (cdnTokenStore (snd (get_proxy example_env 3599000 3599000 3599000 0 False ''Ch120'' (Some ''s1'')
                ''localhost:3000'' ''10.0.0.1'' example_stores)))
       = [(''s1'', 1000, 61000), (''s1'', 3599000, 3659000)]
   \<and> \<not> (3659000 \<le> expiresAt \<lparr>userId = ''demo'', ip = ''10.0.0.1'', createdAt = 0, expiresAt = 3600000\<rparr>)"
  by (simp add: get_proxy_def checkSessionToken_def createCdnToken_def example_stores_def example_env_def
      falsy_def Let_def CDN_POOL_def CDN_TTL_def SESSION_TTL_def show_int_def show_nat_small show_nat_large
      digit_char_def)

lemma digit_char_value: "d < 10 \<Longrightarrow> of_char (digit_char d) - 48 = d"
proof -
  assume "d < 10"
  then have "d = 0 \<or> d = 1 \<or> d = 2 \<or> d = 3 \<or> d = 4 \<or> d = 5 \<or> d = 6 \<or> d = 7 \<or> d = 8 \<or> d = 9"
    by presburger
  then show ?thesis
    by (elim disjE) (simp_all add: digit_char_def)
qed

lemma digits_value_show_nat: "digits_value (show_nat n) = n"
proof (induction n rule: show_nat.induct)
  case (1 n)
  show ?case
  proof (cases "n < 10")
    case True
    then show ?thesis
      by (simp add: show_nat_small digits_value_def digit_char_value)
  next
    case False
    then have "digits_value (show_nat (n div 10)) = n div 10"
      using 1 by simp
    then show ?thesis
      using False by (simp add: show_nat_large digits_value_def digit_char_value)
  qed
qed

lemma show_nat_inj: "show_nat n = show_nat m \<Longrightarrow> n = m"
  using digits_value_show_nat by metis

lemma show_nat_digits: "c \<in> set (show_nat n) \<Longrightarrow> c \<in> set ''0123456789''"
proof (induction n rule: show_nat.induct)
  case (1 n)
  have d: "digit_char k \<in> set ''0123456789''" if "k < 10" for k
    unfolding digit_char_def using that by (intro nth_mem) simp
  show ?case
  proof (cases "n < 10")
    case True
    then show ?thesis
      using 1(2) d [of n] by (simp add: show_nat_small)
  next
    case False
    then show ?thesis
      using 1 d [of "n mod 10"] by (auto simp: show_nat_large)
  qed
qed

lemma show_nat_no_minus: "show_nat n \<noteq> CHR ''-'' # s"
  using show_nat_digits [of "CHR ''-''" n] by auto

lemma show_int_inj:
  assumes "show_int i = show_int j"
  shows "i = j"
proof (cases "i < 0"; cases "j < 0")
  assume "i < 0" "j < 0"
  then have "show_nat (nat (- i)) = show_nat (nat (- j))"
    using assms by (simp add: show_int_def)
  then have "nat (- i) = nat (- j)" by (rule show_nat_inj)
  then show ?thesis using \<open>i < 0\<close> \<open>j < 0\<close> by simp
next
  assume "i < 0" "\<not> j < 0"
  then have "show_nat (nat j) = CHR ''-'' # show_nat (nat (- i))"
    using assms by (simp add: show_int_def)
  then show ?thesis using show_nat_no_minus by blast
next
  assume "\<not> i < 0" "j < 0"
  then have "show_nat (nat i) = CHR ''-'' # show_nat (nat (- j))"
    using assms by (simp add: show_int_def)
  then show ?thesis using show_nat_no_minus by blast
next
  assume "\<not> i < 0" "\<not> j < 0"
  then have "show_nat (nat i) = show_nat (nat j)"
    using assms by (simp add: show_int_def)
  then have "nat i = nat j" by (rule show_nat_inj)
  then show ?thesis using \<open>\<not> i < 0\<close> \<open>\<not> j < 0\<close> by simp
qed


text \<open>Towards C7. Two issuances that differ only in the clock value hash two different
  strings, and their tokens are equal exactly when the random prefixes agree and the
  two digests agree on their first 36 characters. Whether that can happen is a question
  about SHA-256, which is a parameter here.\<close>

lemma cdn_tokens_equal_iff:
  assumes "ts1 \<noteq> ts2"
  shows "sessTok @ '':'' @ server @ '':'' @ chan @ '':'' @ show_int ts1 @ '':'' @ CDN_SECRET e
         \<noteq> sessTok @ '':'' @ server @ '':'' @ chan @ '':'' @ show_int ts2 @ '':'' @ CDN_SECRET e"
    and "fst (createCdnToken e ts1 hi1 sessTok server chan st1) = fst (createCdnToken e ts2 hi2 sessTok server chan st2)
         \<longleftrightarrow> hi1 = hi2 \<and>
           take 36 (sha256_base64url e (sessTok @ '':'' @ server @ '':'' @ chan @ '':'' @ show_int ts1 @ '':'' @ CDN_SECRET e))
         = take 36 (sha256_base64url e (sessTok @ '':'' @ server @ '':'' @ chan @ '':'' @ show_int ts2 @ '':'' @ CDN_SECRET e))"
proof -
  show "sessTok @ '':'' @ server @ '':'' @ chan @ '':'' @ show_int ts1 @ '':'' @ CDN_SECRET e
         \<noteq> sessTok @ '':'' @ server @ '':'' @ chan @ '':'' @ show_int ts2 @ '':'' @ CDN_SECRET e"
    using assms show_int_inj by auto
  show "fst (createCdnToken e ts1 hi1 sessTok server chan st1) = fst (createCdnToken e ts2 hi2 sessTok server chan st2)
         \<longleftrightarrow> hi1 = hi2 \<and>
           take 36 (sha256_base64url e (sessTok @ '':'' @ server @ '':'' @ chan @ '':'' @ show_int ts1 @ '':'' @ CDN_SECRET e))
         = take 36 (sha256_base64url e (sessTok @ '':'' @ server @ '':'' @ chan @ '':'' @ show_int ts2 @ '':'' @ CDN_SECRET e))"
    by (auto simp: createCdnToken_def Let_def)
qed

subsection \<open>Login\<close>

lemma createSessionToken_eq:
  "createSessionToken e ts uid addr st =
     (md5_hex e (uid @ '':'' @ addr @ '':'' @ show_int ts @ '':'' @ SECRET e),
      st\<lparr>sessionStore := AList.update (md5_hex e (uid @ '':'' @ addr @ '':'' @ show_int ts @ '':'' @ SECRET e))
            \<lparr>userId = uid, ip = addr, createdAt = ts, expiresAt = ts + SESSION_TTL\<rparr>
            (sessionStore st)\<rparr>)"
  by (simp add: createSessionToken_def Let_def)


lemma split_at_colon:
  "CHR '':'' \<notin> set u \<Longrightarrow> CHR '':'' \<notin> set u' \<Longrightarrow> u @ CHR '':'' # r = u' @ CHR '':'' # r' \<Longrightarrow>
   u = u' \<and> r = r'"
proof (induction u arbitrary: u')
  case Nil
  then show ?case by (cases u') auto
next
  case (Cons c cs)
  then show ?case by (cases u') auto
qed

lemma show_int_no_colon: "CHR '':'' \<notin> set (show_int i)"
  using show_nat_digits [of "CHR '':''"] by (auto simp: show_int_def)

lemma login_raw_inj:
  assumes "CHR '':'' \<notin> set u" and "CHR '':'' \<notin> set u'"
    and "u @ '':'' @ addr @ '':'' @ show_int now @ '':'' @ secret
       = u' @ '':'' @ addr' @ '':'' @ show_int now' @ '':'' @ secret"
  shows "u = u' \<and> addr = addr' \<and> now = now'"
proof -
  have "u @ CHR '':'' # (addr @ '':'' @ show_int now @ '':'' @ secret)
      = u' @ CHR '':'' # (addr' @ '':'' @ show_int now' @ '':'' @ secret)"
    using assms(3) by simp
  then have u: "u = u'" and "addr @ '':'' @ show_int now @ '':'' @ secret
      = addr' @ '':'' @ show_int now' @ '':'' @ secret"
    using split_at_colon [OF assms(1,2)] by blast+
  then have "(addr @ '':'' @ show_int now) @ ('':'' @ secret)
      = (addr' @ '':'' @ show_int now') @ ('':'' @ secret)"
    by simp
  then have "addr @ '':'' @ show_int now = addr' @ '':'' @ show_int now'"
    by (simp only: append_same_eq)
  then have "rev (addr @ '':'' @ show_int now) = rev (addr' @ '':'' @ show_int now')"
    by simp
  then have "rev (show_int now) @ CHR '':'' # rev addr = rev (show_int now') @ CHR '':'' # rev addr'"
    by simp
  then have "rev (show_int now) = rev (show_int now')" and "rev addr = rev addr'"
    using split_at_colon [of "rev (show_int now)" "rev (show_int now')" "rev addr" "rev addr'"]
      show_int_no_colon by auto
  then have "show_int now = show_int now'" and "addr = addr'"
    by simp_all
  then show ?thesis
    using u show_int_inj by blast
qed

lemma table_user: "(u, p) \<in> set USERS \<Longrightarrow> map_of USERS u = Some p \<and> u \<noteq> [] \<and> p \<noteq> [] \<and> CHR '':'' \<notin> set u"
  by (auto simp: USERS_def)

lemma post_login_table:
  assumes "(u, p) \<in> set USERS"
  shows "post_login e now (Some u) (Some p) addr st =
      (\<lparr>status = 200, headers = [],
         payload = Json [(''success'', JBool True),
           (''token'', JStr (md5_hex e (u @ '':'' @ addr @ '':'' @ show_int now @ '':'' @ SECRET e))),
           (''userId'', JStr u), (''expiresIn'', JNum 3600),
           (''message'', JStr (''Welcome '' @ u @ ''! Session valid for 1 hour.''))]\<rparr>,
       st\<lparr>sessionStore := AList.update (md5_hex e (u @ '':'' @ addr @ '':'' @ show_int now @ '':'' @ SECRET e))
            \<lparr>userId = u, ip = addr, createdAt = now, expiresAt = now + SESSION_TTL\<rparr>
            (sessionStore st)\<rparr>)"
  using table_user [OF assms]
  by (simp add: post_login_def falsy_def createSessionToken_eq SESSION_TTL_def)

text \<open>C8, amended. For every pair of the user table, \<^verbatim>\<open>POST /login\<close> answers 200 with
  a token that is the MD5 digest of user, address, clock value and secret, and stores
  it with expiry equal to the clock value plus \<^const>\<open>SESSION_TTL\<close>; no other entry of
  either store changes. Two such logins hash the same string exactly when user, address
  and clock value all agree, and return the same token exactly when the two digests
  agree: the token is one that no login of another user, from another address or at
  another millisecond has returned, as long as MD5 does not map the two different
  strings to one digest.\<close>

theorem login_issues_session:
  assumes "(u, p) \<in> set USERS" and "(u', p') \<in> set USERS"
  shows "(\<exists>tok st'.
      post_login e now (Some u) (Some p) addr st =
        (\<lparr>status = 200, headers = [],
          payload = Json [(''success'', JBool True), (''token'', JStr tok), (''userId'', JStr u),
            (''expiresIn'', JNum 3600),
            (''message'', JStr (''Welcome '' @ u @ ''! Session valid for 1 hour.''))]\<rparr>, st')
      \<and> tok = md5_hex e (u @ '':'' @ addr @ '':'' @ show_int now @ '':'' @ SECRET e)
      \<and> map_of (sessionStore st') tok
          = Some \<lparr>userId = u, ip = addr, createdAt = now, expiresAt = now + SESSION_TTL\<rparr>
      \<and> (\<forall>k. k \<noteq> tok \<longrightarrow> map_of (sessionStore st') k = map_of (sessionStore st) k)
      \<and> cdnTokenStore st' = cdnTokenStore st)
    \<and> (u @ '':'' @ addr @ '':'' @ show_int now @ '':'' @ SECRET e
         = u' @ '':'' @ addr' @ '':'' @ show_int now' @ '':'' @ SECRET e
       \<longleftrightarrow> u = u' \<and> addr = addr' \<and> now = now')
    \<and> (token_field (payload (fst (post_login e now (Some u) (Some p) addr st)))
         = token_field (payload (fst (post_login e now' (Some u') (Some p') addr' st0)))
       \<longleftrightarrow> md5_hex e (u @ '':'' @ addr @ '':'' @ show_int now @ '':'' @ SECRET e)
         = md5_hex e (u' @ '':'' @ addr' @ '':'' @ show_int now' @ '':'' @ SECRET e))
    \<and> (\<not> (u = u' \<and> addr = addr' \<and> now = now') \<longrightarrow>
       inj_on (md5_hex e) {u @ '':'' @ addr @ '':'' @ show_int now @ '':'' @ SECRET e,
                           u' @ '':'' @ addr' @ '':'' @ show_int now' @ '':'' @ SECRET e} \<longrightarrow>
       token_field (payload (fst (post_login e now (Some u) (Some p) addr st)))
         \<noteq> token_field (payload (fst (post_login e now' (Some u') (Some p') addr' st0))))"
proof (intro conjI)
  show "\<exists>tok st'.
      post_login e now (Some u) (Some p) addr st =
        (\<lparr>status = 200, headers = [],
          payload = Json [(''success'', JBool True), (''token'', JStr tok), (''userId'', JStr u),
            (''expiresIn'', JNum 3600),
            (''message'', JStr (''Welcome '' @ u @ ''! Session valid for 1 hour.''))]\<rparr>, st')
      \<and> tok = md5_hex e (u @ '':'' @ addr @ '':'' @ show_int now @ '':'' @ SECRET e)
      \<and> map_of (sessionStore st') tok
          = Some \<lparr>userId = u, ip = addr, createdAt = now, expiresAt = now + SESSION_TTL\<rparr>
      \<and> (\<forall>k. k \<noteq> tok \<longrightarrow> map_of (sessionStore st') k = map_of (sessionStore st) k)
      \<and> cdnTokenStore st' = cdnTokenStore st"
    by (simp add: post_login_table [OF assms(1)] update_conv')
  show "u @ '':'' @ addr @ '':'' @ show_int now @ '':'' @ SECRET e
         = u' @ '':'' @ addr' @ '':'' @ show_int now' @ '':'' @ SECRET e
       \<longleftrightarrow> u = u' \<and> addr = addr' \<and> now = now'"
    using login_raw_inj [of u u' addr now "SECRET e" addr' now']
      table_user [OF assms(1)] table_user [OF assms(2)] by blast
  show "token_field (payload (fst (post_login e now (Some u) (Some p) addr st)))
         = token_field (payload (fst (post_login e now' (Some u') (Some p') addr' st0)))
       \<longleftrightarrow> md5_hex e (u @ '':'' @ addr @ '':'' @ show_int now @ '':'' @ SECRET e)
         = md5_hex e (u' @ '':'' @ addr' @ '':'' @ show_int now' @ '':'' @ SECRET e)"
    by (simp add: post_login_table [OF assms(1)] post_login_table [OF assms(2)])
  show "\<not> (u = u' \<and> addr = addr' \<and> now = now') \<longrightarrow>
       inj_on (md5_hex e) {u @ '':'' @ addr @ '':'' @ show_int now @ '':'' @ SECRET e,
                           u' @ '':'' @ addr' @ '':'' @ show_int now' @ '':'' @ SECRET e} \<longrightarrow>
       token_field (payload (fst (post_login e now (Some u) (Some p) addr st)))
         \<noteq> token_field (payload (fst (post_login e now' (Some u') (Some p') addr' st0)))"
  proof (intro impI)
    assume diff: "\<not> (u = u' \<and> addr = addr' \<and> now = now')"
      and inj: "inj_on (md5_hex e) {u @ '':'' @ addr @ '':'' @ show_int now @ '':'' @ SECRET e,
                           u' @ '':'' @ addr' @ '':'' @ show_int now' @ '':'' @ SECRET e}"
    have "u @ '':'' @ addr @ '':'' @ show_int now @ '':'' @ SECRET e
         \<noteq> u' @ '':'' @ addr' @ '':'' @ show_int now' @ '':'' @ SECRET e"
      using diff login_raw_inj [of u u' addr now "SECRET e" addr' now']
        table_user [OF assms(1)] table_user [OF assms(2)] by blast
    then have "md5_hex e (u @ '':'' @ addr @ '':'' @ show_int now @ '':'' @ SECRET e)
         \<noteq> md5_hex e (u' @ '':'' @ addr' @ '':'' @ show_int now' @ '':'' @ SECRET e)"
      using inj by (auto simp: inj_on_def)
    then show "token_field (payload (fst (post_login e now (Some u) (Some p) addr st)))
         \<noteq> token_field (payload (fst (post_login e now' (Some u') (Some p') addr' st0)))"
      by (simp add: post_login_table [OF assms(1)] post_login_table [OF assms(2)])
  qed
qed

theorem login_issues_session_witness:
  "(''demo'', ''demo123'') \<in> set USERS
   \<and> token_field (payload (fst (post_login example_env 1000 (Some ''demo'') (Some ''demo123'') ''10.0.0.1''
        example_stores)))
       = Some ''md5(demo:10.0.0.1:1000:proxy_secret_key_!@#$)''
   \<and> token_field (payload (fst (post_login example_env 1001 (Some ''demo'') (Some ''demo123'') ''10.0.0.1''
        example_stores)))
       = Some ''md5(demo:10.0.0.1:1001:proxy_secret_key_!@#$)''
   \<and> (\<exists>tok st'.
      post_login example_env 1000 (Some ''demo'') (Some ''demo123'') ''10.0.0.1'' example_stores =
        (\<lparr>status = 200, headers = [],
          payload = Json [(''success'', JBool True), (''token'', JStr tok), (''userId'', JStr ''demo''),
            (''expiresIn'', JNum 3600),
            (''message'', JStr ''Welcome demo! Session valid for 1 hour.'')]\<rparr>, st')
      \<and> map_of (sessionStore st') tok
          = Some \<lparr>userId = ''demo'', ip = ''10.0.0.1'', createdAt = 1000, expiresAt = 3601000\<rparr>)
   \<and> token_field (payload (fst (post_login example_env 1000 (Some ''demo'') (Some ''demo123'') ''10.0.0.1''
        example_stores)))
     \<noteq> token_field (payload (fst (post_login example_env 1001 (Some ''demo'') (Some ''demo123'') ''10.0.0.1''
        example_stores)))"
proof -
  have m: "(''demo'', ''demo123'') \<in> set USERS"
    by (simp add: USERS_def)
  note w = login_issues_session [OF m m, of example_env 1000 "''10.0.0.1''" example_stores
      "''10.0.0.1''" 1001 example_stores]
  have d: "md5_hex example_env (''demo'' @ '':'' @ ''10.0.0.1'' @ '':'' @ show_int 1000 @ '':'' @ SECRET example_env)
      \<noteq> md5_hex example_env (''demo'' @ '':'' @ ''10.0.0.1'' @ '':'' @ show_int 1001 @ '':'' @ SECRET example_env)"
    by (simp add: example_env_def show_int_def show_nat_small show_nat_large digit_char_def)
  have t0: "token_field (payload (fst (post_login example_env 1000 (Some ''demo'') (Some ''demo123'') ''10.0.0.1''
        example_stores))) = Some ''md5(demo:10.0.0.1:1000:proxy_secret_key_!@#$)''"
    using w by (auto simp: example_env_def show_int_def show_nat_small show_nat_large digit_char_def)
  have t1: "token_field (payload (fst (post_login example_env 1001 (Some ''demo'') (Some ''demo123'') ''10.0.0.1''
        example_stores))) = Some ''md5(demo:10.0.0.1:1001:proxy_secret_key_!@#$)''"
    by (simp add: post_login_table [OF m] example_env_def show_int_def show_nat_small show_nat_large digit_char_def)
  have ex: "\<exists>tok st'.
      post_login example_env 1000 (Some ''demo'') (Some ''demo123'') ''10.0.0.1'' example_stores =
        (\<lparr>status = 200, headers = [],
          payload = Json [(''success'', JBool True), (''token'', JStr tok), (''userId'', JStr ''demo''),
            (''expiresIn'', JNum 3600),
            (''message'', JStr ''Welcome demo! Session valid for 1 hour.'')]\<rparr>, st')
      \<and> map_of (sessionStore st') tok
          = Some \<lparr>userId = ''demo'', ip = ''10.0.0.1'', createdAt = 1000, expiresAt = 3601000\<rparr>"
    using w by (auto simp: SESSION_TTL_def)
  have ne: "token_field (payload (fst (post_login example_env 1000 (Some ''demo'') (Some ''demo123'') ''10.0.0.1''
        example_stores)))
     \<noteq> token_field (payload (fst (post_login example_env 1001 (Some ''demo'') (Some ''demo123'') ''10.0.0.1''
        example_stores)))"
  proof -
    have "inj_on (md5_hex example_env)
        {''demo'' @ '':'' @ ''10.0.0.1'' @ '':'' @ show_int 1000 @ '':'' @ SECRET example_env,
         ''demo'' @ '':'' @ ''10.0.0.1'' @ '':'' @ show_int 1001 @ '':'' @ SECRET example_env}"
      using d by (auto simp: inj_on_def)
    moreover have "\<not> (''demo'' = ''demo'' \<and> ''10.0.0.1'' = ''10.0.0.1'' \<and> (1000::int) = 1001)"
      by simp
    ultimately show ?thesis
      using w by blast
  qed
  show ?thesis
    using m t0 t1 ex ne by (intro conjI)
qed

text \<open>C8 as stated fails: two logins of the same user from the same address within the
  same millisecond return the same token, and the second finds it in the store.\<close>

theorem login_reissues_counterexample:
  "fst (post_login example_env 1000 (Some ''demo'') (Some ''demo123'') ''10.0.0.1''
         \<lparr>sessionStore = [], cdnTokenStore = []\<rparr>)
     = \<lparr>status = 200, headers = [],
         payload = Json [(''success'', JBool True),
           (''token'', JStr ''md5(demo:10.0.0.1:1000:proxy_secret_key_!@#$)''), (''userId'', JStr ''demo''),
           (''expiresIn'', JNum 3600),
           (''message'', JStr ''Welcome demo! Session valid for 1 hour.'')]\<rparr>
   \<and> map fst (sessionStore (snd (post_login example_env 1000 (Some ''demo'') (Some ''demo123'') ''10.0.0.1''
         \<lparr>sessionStore = [], cdnTokenStore = []\<rparr>)))
     = [''md5(demo:10.0.0.1:1000:proxy_secret_key_!@#$)'']
   \<and> fst (post_login example_env 1000 (Some ''demo'') (Some ''demo123'') ''10.0.0.1''
         (snd (post_login example_env 1000 (Some ''demo'') (Some ''demo123'') ''10.0.0.1''
           \<lparr>sessionStore = [], cdnTokenStore = []\<rparr>)))
     = \<lparr>status = 200, headers = [],
         payload = Json [(''success'', JBool True),
           (''token'', JStr ''md5(demo:10.0.0.1:1000:proxy_secret_key_!@#$)''), (''userId'', JStr ''demo''),
           (''expiresIn'', JNum 3600),
           (''message'', JStr ''Welcome demo! Session valid for 1 hour.'')]\<rparr>"
  by (simp add: post_login_def falsy_def USERS_def createSessionToken_eq example_env_def SESSION_TTL_def
      show_int_def show_nat_small show_nat_large digit_char_def)

subsection \<open>Expired sessions\<close>


















subsection \<open>The manifest, read line by line\<close>

lemma startsWith_length: "startsWith l pat \<Longrightarrow> length pat \<le> length l"
  by (induction l pat rule: startsWith.induct) auto

lemma startsWith_before_newline:
  "CHR 0x0A \<notin> set pat \<Longrightarrow> startsWith (l @ CHR 0x0A # r) pat = startsWith l pat"
  by (induction l pat rule: startsWith.induct) auto

lemma takeWhile_hit:
  "x \<in> set xs \<Longrightarrow> takeWhile (\<lambda>c. c \<noteq> x) (xs @ ys) = takeWhile (\<lambda>c. c \<noteq> x) xs"
  by (induction xs) auto

lemma content_on_line:
  assumes "startsWith l pat" and "x \<in> set (drop (length pat) l)"
  shows "takeWhile (\<lambda>c. c \<noteq> x) (drop (length pat) (l @ r)) = takeWhile (\<lambda>c. c \<noteq> x) (drop (length pat) l)"
proof -
  have "drop (length pat) (l @ r) = drop (length pat) l @ r"
    using startsWith_length [OF assms(1)] by simp
  then show ?thesis
    using takeWhile_hit [OF assms(2)] by simp
qed

lemma lineOutline_step:
  "lineOutline l = Some us \<Longrightarrow> outline (l @ CHR 0x0A # r) = us @ outline r"
proof (induction l arbitrary: us)
  case Nil
  then show ?case by simp
next
  case (Cons c cs)
  let ?l = "c # cs"
  let ?rep = \<open>''<Representation id="''\<close>
  let ?url = "''<BaseURL>''"
  have sw_rep: "startsWith (?l @ CHR 0x0A # r) ?rep = startsWith ?l ?rep"
    by (rule startsWith_before_newline) simp
  have sw_url: "startsWith (?l @ CHR 0x0A # r) ?url = startsWith ?l ?url"
    by (rule startsWith_before_newline) simp
  have unfold: "outline (?l @ CHR 0x0A # r) =
     (if startsWith ?l ?rep
      then Rep (takeWhile (\<lambda>x. x \<noteq> CHR 0x22) (drop 20 (?l @ CHR 0x0A # r))) # outline (cs @ CHR 0x0A # r)
      else if startsWith ?l ?url
      then Url (takeWhile (\<lambda>x. x \<noteq> CHR ''<'') (drop 9 (?l @ CHR 0x0A # r))) # outline (cs @ CHR 0x0A # r)
      else outline (cs @ CHR 0x0A # r))"
    using sw_rep sw_url by (simp del: startsWith.simps drop_Suc_Cons)
  show ?case
  proof (cases "startsWith ?l ?rep")
    case True
    from True Cons.prems obtain vs where
      hit: "CHR 0x22 \<in> set (drop 20 ?l)" and vs: "lineOutline cs = Some vs"
      and us: "us = Rep (takeWhile (\<lambda>x. x \<noteq> CHR 0x22) (drop 20 ?l)) # vs"
      by (auto simp del: startsWith.simps drop_Suc_Cons split: if_splits)
    have tw: "takeWhile (\<lambda>x. x \<noteq> CHR 0x22) (drop 20 (?l @ CHR 0x0A # r))
        = takeWhile (\<lambda>x. x \<noteq> CHR 0x22) (drop 20 ?l)"
      using content_on_line [OF True, of "CHR 0x22" "CHR 0x0A # r"] hit by simp
    have step: "outline (?l @ CHR 0x0A # r)
        = Rep (takeWhile (\<lambda>x. x \<noteq> CHR 0x22) (drop 20 (?l @ CHR 0x0A # r))) # outline (cs @ CHR 0x0A # r)"
      using True by (simp only: unfold if_True)
    show ?thesis
      unfolding step tw us Cons.IH [OF vs] by simp
  next
    case False
    note not_rep = False
    show ?thesis
    proof (cases "startsWith ?l ?url")
      case True
      from True not_rep Cons.prems obtain vs where
        hit: "CHR ''<'' \<in> set (drop 9 ?l)" and vs: "lineOutline cs = Some vs"
        and us: "us = Url (takeWhile (\<lambda>x. x \<noteq> CHR ''<'') (drop 9 ?l)) # vs"
        by (auto simp del: startsWith.simps drop_Suc_Cons split: if_splits)
      have tw: "takeWhile (\<lambda>x. x \<noteq> CHR ''<'') (drop 9 (?l @ CHR 0x0A # r))
          = takeWhile (\<lambda>x. x \<noteq> CHR ''<'') (drop 9 ?l)"
        using content_on_line [OF True, of "CHR ''<''" "CHR 0x0A # r"] hit by simp
      have step: "outline (?l @ CHR 0x0A # r)
          = Url (takeWhile (\<lambda>x. x \<noteq> CHR ''<'') (drop 9 (?l @ CHR 0x0A # r))) # outline (cs @ CHR 0x0A # r)"
        using True not_rep by (simp only: unfold if_True if_False)
      show ?thesis
        unfolding step tw us Cons.IH [OF vs] by simp
    next
      case False
      then have "lineOutline cs = Some us"
        using not_rep Cons.prems by (simp del: startsWith.simps)
      moreover have "outline (?l @ CHR 0x0A # r) = outline (cs @ CHR 0x0A # r)"
        using False not_rep by (simp only: unfold if_False)
      ultimately show ?thesis
        using Cons.IH by simp
    qed
  qed
qed

lemma lineOutline_last: "lineOutline l = Some us \<Longrightarrow> outline l = us"
  by (induction l arbitrary: us) (auto simp del: startsWith.simps drop_Suc_Cons split: if_splits)

lemma linesOutline_joinLines: "linesOutline ls = Some us \<Longrightarrow> outline (joinLines ls) = us"
proof (induction ls arbitrary: us rule: joinLines.induct)
  case 1
  then show ?case by simp
next
  case (2 l)
  then show ?case by (auto split: option.splits simp: lineOutline_last)
next
  case (3 l v va)
  from "3.prems" obtain u1 u2 where u1: "lineOutline l = Some u1" and u2: "linesOutline (v # va) = Some u2"
    and us: "us = u1 @ u2"
    by (auto split: option.splits)
  show ?case
    using lineOutline_step [OF u1] "3.IH" [OF u2] us by simp
qed

lemma lineOutline_skip: "CHR ''<'' \<notin> set xs \<Longrightarrow> lineOutline (xs @ ys) = lineOutline ys"
  by (induction xs) auto

lemma lineOutline_plain: "CHR ''<'' \<notin> set xs \<Longrightarrow> lineOutline xs = Some []"
  using lineOutline_skip [of xs "[]"] by simp

lemma of_char_div16: "(of_char (c::char) :: nat) div 16 < 16"
proof -
  have "(of_char c :: nat) < 256" by (cases c) simp
  then show ?thesis by arith
qed




lemma takeWhile_skip:
  "CHR ''<'' \<notin> set xs \<Longrightarrow>
   takeWhile (\<lambda>x. x \<noteq> CHR ''<'') (xs @ ys) = xs @ takeWhile (\<lambda>x. x \<noteq> CHR ''<'') ys"
  by (induction xs) auto

lemma box_run: "CHR ''<'' \<notin> set (concat (replicate n box_h))" "CHR ''<'' \<notin> set (concat (replicate n light_h))"
  by (auto simp: box_h_def light_h_def)

lemma box_chars: "CHR ''<'' \<notin> set box_dr" "CHR ''<'' \<notin> set box_dl" "CHR ''<'' \<notin> set box_v"
  "CHR ''<'' \<notin> set box_ur" "CHR ''<'' \<notin> set box_ul" "CHR ''<'' \<notin> set em_dash" "CHR ''<'' \<notin> set light_h"
  "CHR ''<'' \<notin> set box_h"
  by (simp_all add: box_dr_def box_h_def box_dl_def box_v_def box_ur_def box_ul_def light_h_def em_dash_def)


lemma box_ends: "lineOutline box_dl = Some []" "lineOutline box_ul = Some []" "lineOutline box_v = Some []"
  by (simp_all add: lineOutline_plain box_chars)

lemma drop20: "drop 20 (x1 # x2 # x3 # x4 # x5 # x6 # x7 # x8 # x9 # x10 # x11 # x12 # x13 # x14 # x15
    # x16 # x17 # x18 # x19 # x20 # xs) = xs"
  by simp

lemma drop9: "drop 9 (x1 # x2 # x3 # x4 # x5 # x6 # x7 # x8 # x9 # xs) = xs"
  by simp

text \<open>The encoding of a credential determines the credential.\<close>

lemma hex_value_hex_digit: "d < 16 \<Longrightarrow> hex_value (hex_digit d) = Some d"
proof -
  assume "d < 16"
  then have "d = 0 \<or> d = 1 \<or> d = 2 \<or> d = 3 \<or> d = 4 \<or> d = 5 \<or> d = 6 \<or> d = 7 \<or> d = 8 \<or> d = 9
      \<or> d = 10 \<or> d = 11 \<or> d = 12 \<or> d = 13 \<or> d = 14 \<or> d = 15"
    by presburger
  then show ?thesis
    by (elim disjE) (simp_all add: hex_value_def hex_digit_def upt_rec)
qed

lemma percent_decode_plain:
  "c \<noteq> CHR ''%'' \<Longrightarrow> percent_decode (c # cs) = map_option ((#) c) (percent_decode cs)"
  by (cases cs rule: percent_decode.cases) (auto simp: option.map_comp)

lemma percent_decode_escape:
  "hex_value h = Some a \<Longrightarrow> hex_value l = Some b \<Longrightarrow>
   percent_decode (CHR ''%'' # h # l # rest) = map_option ((#) (char_of (16 * a + b))) (percent_decode rest)"
  by simp

lemma unreserved_not_percent: "uri_unreserved c \<Longrightarrow> c \<noteq> CHR ''%''"
  by (auto simp: uri_unreserved_def)

lemma char_split: "char_of (16 * (of_char c div 16) + of_char c mod 16 :: nat) = (c :: char)"
  by simp

lemma percent_decode_byte:
  "percent_decode (percent_byte c @ rest) = map_option ((#) c) (percent_decode rest)"
proof (cases "uri_unreserved c")
  case True
  then show ?thesis
    by (simp add: percent_byte_def percent_decode_plain unreserved_not_percent)
next
  case False
  have h: "hex_value (hex_digit (of_char c div 16)) = Some (of_char c div 16)"
    by (rule hex_value_hex_digit) (rule of_char_div16)
  have l: "hex_value (hex_digit (of_char c mod 16)) = Some (of_char c mod 16)"
    by (rule hex_value_hex_digit) simp
  show ?thesis
    using False percent_decode_escape [OF h l, of rest] by (simp add: percent_byte_def del: percent_decode.simps)
qed

lemma percent_decode_encode: "percent_decode (encodeURIComponent s) = Some s"
  by (induction s) (simp_all add: encodeURIComponent_def percent_decode_byte)

lemma encodeURIComponent_inj: "encodeURIComponent s = encodeURIComponent t \<Longrightarrow> s = t"
  using percent_decode_encode by (metis option.inject)

lemma slice_ascii:
  "\<forall>c \<in> set s. (of_char c :: nat) < 0x80 \<Longrightarrow> slice_from_0 n s = take n s"
proof (induction n arbitrary: s)
  case 0
  then show ?case by simp
next
  case (Suc n)
  then show ?case by (cases s) auto
qed

lemma slice_counts_units:
  "slice_from_0 2 [CHR 0xC3, CHR 0xA9, CHR ''A'', CHR ''B''] = [CHR 0xC3, CHR 0xA9, CHR ''A'']"
  by (simp add: eval_nat_numeral)





text \<open>The first 20 characters of the credential stand in the comment at the head of
  the document, which the outline reads like the rest: a credential that begins with
  \<^verbatim>\<open><BaseURL>\<close> adds an entry there. No token the server issues does (a prefix, \<^verbatim>\<open>@\<close>
  and base64url characters).\<close>

lemma manifest_comment_is_outlined:
  "outline (buildMpd ''localhost:3000'' ''<BaseURL>z<'') =
     [Url ''z'',
      Rep ''v1'', Url ''http://localhost:3000/cdn/%3CBaseURL%3Ez%3C/seg/'',
      Rep ''v2'', Url ''http://localhost:3000/cdn/%3CBaseURL%3Ez%3C/seg/'',
      Rep ''v3'', Url ''http://localhost:3000/cdn/%3CBaseURL%3Ez%3C/seg/'',
      Rep ''v4'', Url ''http://localhost:3000/cdn/%3CBaseURL%3Ez%3C/seg/'',
      Rep ''v5'', Url ''http://localhost:3000/cdn/%3CBaseURL%3Ez%3C/seg/'',
      Rep ''a1'', Url ''http://localhost:3000/cdn/%3CBaseURL%3Ez%3C/seg/'',
      Rep ''a2'', Url ''http://localhost:3000/cdn/%3CBaseURL%3Ez%3C/seg/'',
      Rep ''s1'', Url ''http://localhost:3000/cdn/%3CBaseURL%3Ez%3C/seg/subtitles/'']"
proof -
  have enc: "encodeURIComponent ''<BaseURL>z<'' = ''%3CBaseURL%3Ez%3C''"
    by (simp add: encodeURIComponent_def percent_byte_def uri_unreserved_def hex_digit_def)
  have sl: "slice_from_0 20 ''<BaseURL>z<'' = ''<BaseURL>z<''"
    by (simp add: slice_ascii)
  show ?thesis
    unfolding buildMpd_def Let_def enc sl
    apply (rule linesOutline_joinLines)
    apply (simp only: linesOutline.simps lineOutline.simps startsWith.simps append.simps append_assoc append_Nil2
        char.inject simp_thms if_True if_False option.simps option.map drop20 drop9
        list.set insert_iff Un_iff set_append empty_iff takeWhile.simps takeWhile_skip
        lineOutline_skip box_run box_chars box_ends list.inject item.inject
        cong: if_weak_cong option.case_cong_weak)
    done
qed

end
